theory Spec2Isabelle
  imports Complex_Main "HOL-Library.AList" "HOL-Library.Sublist"
    "HOL-Library.Char_ord" "HOL-Library.List_Lexorder"
begin

section \<open>Values, dictionaries and the Python builtins the service relies on\<close>

text \<open>
  The service (\<^verbatim>\<open>src/main.py\<close>) keeps one JSON document on disk.  Field values of a
  user record are arbitrary JSON values, because the document is read back with
  \<^verbatim>\<open>json.load\<close> and the code coerces them on every use.

  Python floats are modelled by exact rationals: arithmetic has no rounding error, there
  are no special values (inf, nan) and no overflow.  \<^verbatim>\<open>round(x, 2)\<close> is rounding to the
  nearest multiple of 1/100 with ties going to the even neighbour.  A \<open>char\<close> stands for
  one character of a Python string.
\<close>

datatype json =
    JNull
  | JBool bool
  | JInt int
  | JFloat rat
  | JStr string
  | JList "json list"
  | JObj "(string \<times> json) list"

text \<open>
  A Python \<^verbatim>\<open>dict\<close> with string keys is an association list in insertion order.
  Assigning to an existing key keeps its place, assigning to a new key appends it.
\<close>

type_synonym 'v dict = "(string \<times> 'v) list"

definition dict_get :: "'v dict \<Rightarrow> string \<Rightarrow> 'v option" where
  "dict_get d k = map_of d k"

definition dict_get_default :: "'v dict \<Rightarrow> string \<Rightarrow> 'v \<Rightarrow> 'v" where
  "dict_get_default d k dflt = (case map_of d k of None \<Rightarrow> dflt | Some v \<Rightarrow> v)"

definition dict_contains :: "'v dict \<Rightarrow> string \<Rightarrow> bool" where
  "dict_contains d k = (map_of d k \<noteq> None)"

definition dict_set :: "'v dict \<Rightarrow> string \<Rightarrow> 'v \<Rightarrow> 'v dict" where
  "dict_set d k v = AList.update k v d"

definition setdefault :: "'v dict \<Rightarrow> string \<Rightarrow> 'v \<Rightarrow> 'v dict" where
  "setdefault d k v = (if dict_contains d k then d else dict_set d k v)"

text \<open>
  An \<^verbatim>\<open>HTTPException\<close> carries its status code (the detail text is left out); the
  other errors are Python exceptions no handler catches.
\<close>

datatype error =
    HTTPException nat
  | ValueError
  | TypeError
  | KeyError

text \<open>
  \<^verbatim>\<open>float(s)\<close> and \<^verbatim>\<open>int(s)\<close> on a string follow Python's own grammar, which is not part
  of the repository.  Both parsers are parameters of the model; \<open>None\<close> is the string
  the builtin rejects with \<^verbatim>\<open>ValueError\<close>.
\<close>

record builtins =
  str_to_float :: "string \<Rightarrow> rat option"
  str_to_int :: "string \<Rightarrow> int option"

fun py_float :: "builtins \<Rightarrow> json \<Rightarrow> error + rat" where
  "py_float B JNull = Inl TypeError"
| "py_float B (JBool b) = Inr (if b then 1 else 0)"
| "py_float B (JInt i) = Inr (of_int i)"
| "py_float B (JFloat x) = Inr x"
| "py_float B (JStr s) = (case str_to_float B s of None \<Rightarrow> Inl ValueError | Some x \<Rightarrow> Inr x)"
| "py_float B (JList xs) = Inl TypeError"
| "py_float B (JObj kvs) = Inl TypeError"

text \<open>\<^verbatim>\<open>int(x)\<close>: a float is truncated towards zero.\<close>

fun py_int :: "builtins \<Rightarrow> json \<Rightarrow> error + int" where
  "py_int B JNull = Inl TypeError"
| "py_int B (JBool b) = Inr (if b then 1 else 0)"
| "py_int B (JInt i) = Inr i"
| "py_int B (JFloat x) = Inr (if 0 \<le> x then \<lfloor>x\<rfloor> else \<lceil>x\<rceil>)"
| "py_int B (JStr s) = (case str_to_int B s of None \<Rightarrow> Inl ValueError | Some i \<Rightarrow> Inr i)"
| "py_int B (JList xs) = Inl TypeError"
| "py_int B (JObj kvs) = Inl TypeError"

text \<open>Truth value of a JSON value, and the expression \<^verbatim>\<open>x or y\<close>.\<close>

fun truthy :: "json \<Rightarrow> bool" where
  "truthy JNull = False"
| "truthy (JBool b) = b"
| "truthy (JInt i) = (i \<noteq> 0)"
| "truthy (JFloat x) = (x \<noteq> 0)"
| "truthy (JStr s) = (s \<noteq> [])"
| "truthy (JList xs) = (xs \<noteq> [])"
| "truthy (JObj kvs) = (kvs \<noteq> [])"

definition py_or :: "json \<Rightarrow> json \<Rightarrow> json" where
  "py_or x y = (if truthy x then x else y)"

definition round_half_even :: "rat \<Rightarrow> int" where
  "round_half_even x =
     (let f = \<lfloor>x\<rfloor>; d = x - of_int f
      in if d < 1 / 2 then f else if 1 / 2 < d then f + 1 else if even f then f else f + 1)"

definition py_round :: "rat \<Rightarrow> nat \<Rightarrow> rat" where
  "py_round x ndigits = of_int (round_half_even (x * 10 ^ ndigits)) / 10 ^ ndigits"

text \<open>
  \<^verbatim>\<open>xs.sort(key=k, reverse=True)\<close>: Python's sort is stable, and with \<^verbatim>\<open>reverse=True\<close>
  elements with equal keys still keep their original order.
\<close>

definition py_sort_desc :: "('a \<Rightarrow> rat) \<Rightarrow> 'a list \<Rightarrow> 'a list" where
  "py_sort_desc k xs = sort_key (\<lambda>x. - k x) xs"

text \<open>
  \<^verbatim>\<open>s.lower()\<close>.  Only the ASCII letters are mapped here; no other character of Python's
  lower-casing yields one of the letters of \<^verbatim>\<open>win\<close> and \<^verbatim>\<open>lose\<close>, the only strings the
  result is compared with.
\<close>

definition char_lower :: "char \<Rightarrow> char" where
  "char_lower c =
     (case map_of (zip ''ABCDEFGHIJKLMNOPQRSTUVWXYZ'' ''abcdefghijklmnopqrstuvwxyz'') c of
        None \<Rightarrow> c
      | Some l \<Rightarrow> l)"

definition lower :: "string \<Rightarrow> string" where
  "lower s = map char_lower s"

section \<open>Clock\<close>

text \<open>
  An operation reads the clock through \<^verbatim>\<open>datetime.utcnow()\<close>.  The model passes one
  reading to each operation: the year, the month and the text \<^verbatim>\<open>isoformat()\<close> gives.
\<close>

record datetime =
  dt_year :: nat
  dt_month :: nat
  dt_isoformat :: string

definition digit :: "nat \<Rightarrow> char" where
  "digit n = ''0123456789'' ! (n mod 10)"

definition strftime_Y_m :: "nat \<Rightarrow> nat \<Rightarrow> string" where
  "strftime_Y_m y m =
     [digit (y div 1000), digit (y div 100), digit (y div 10), digit y,
      CHR ''-'', digit (m div 10), digit m]"

definition now_iso :: "datetime \<Rightarrow> string" where
  "now_iso dt = dt_isoformat dt @ ''Z''"

definition get_month_key :: "datetime \<Rightarrow> string" where
  "get_month_key dt = strftime_Y_m (dt_year dt) (dt_month dt)"

text \<open>The first day of the month minus one day lies in the month before.\<close>

definition prev_month_key :: "datetime \<Rightarrow> string" where
  "prev_month_key dt =
     (if dt_month dt = 1 then strftime_Y_m (dt_year dt - 1) 12
      else strftime_Y_m (dt_year dt) (dt_month dt - 1))"

section \<open>The ledger document\<close>

type_synonym user_record = "json dict"

text \<open>
  Every value of the users mapping is a record (a JSON object); an entry of the winners
  mapping is a podium with its timestamp, as the handlers write it, and so never an empty
  (false) value.
\<close>

record podium_entry =
  pe_position :: int
  pe_user_id :: string
  pe_nickname :: json
  pe_balance :: rat

record winners_entry =
  podium :: "podium_entry list"
  closed_at :: string

text \<open>
  A top-level key that is missing reads as the empty mapping (\<^verbatim>\<open>db.get(k, {})\<close>) and is
  created on the first write (\<^verbatim>\<open>db.setdefault(k, {})\<close>); the record identifies the two.
  \<open>last_month_closed\<close> is \<open>None\<close> for \<^verbatim>\<open>null\<close>.
\<close>

record ledger =
  users :: "user_record dict"
  monthly_winners :: "winners_entry dict"
  last_month_closed :: "string option"

text \<open>The file \<^verbatim>\<open>data/leaderboard.json\<close>: \<open>None\<close> while it does not exist.\<close>

type_synonym store = "ledger option"

definition START_BALANCE :: rat where
  "START_BALANCE = 5000"

definition default_db :: ledger where
  "default_db = \<lparr>users = [], monthly_winners = [], last_month_closed = None\<rparr>"

definition read_db :: "store \<Rightarrow> ledger \<times> store" where
  "read_db s = (case s of None \<Rightarrow> (default_db, Some default_db) | Some db \<Rightarrow> (db, Some db))"

definition write_db :: "ledger \<Rightarrow> store" where
  "write_db db = Some db"

section \<open>Podium and metrics\<close>

text \<open>The \<^verbatim>\<open>try: float(...) except Exception: START_BALANCE\<close> blocks.\<close>

definition float_or_start :: "builtins \<Rightarrow> json \<Rightarrow> rat" where
  "float_or_start B v = (case py_float B v of Inl e \<Rightarrow> START_BALANCE | Inr x \<Rightarrow> x)"

text \<open>The first loop of \<^verbatim>\<open>compute_podium_snapshot\<close>: one triple per user, in mapping order.\<close>

definition podium_rows :: "builtins \<Rightarrow> user_record dict \<Rightarrow> (string \<times> json \<times> rat) list" where
  "podium_rows B us =
     map (\<lambda>(uid, u). (uid, dict_get_default u ''nickname'' (JStr ''''),
            float_or_start B (dict_get_default u ''balance'' (JFloat START_BALANCE)))) us"

definition compute_podium_snapshot ::
  "builtins \<Rightarrow> user_record dict \<Rightarrow> int \<Rightarrow> podium_entry list" where
  "compute_podium_snapshot B us top_n =
     (let arr = py_sort_desc (\<lambda>(uid, nick, bal). bal) (podium_rows B us)
      in map (\<lambda>i. case arr ! i of (uid, nick, bal) \<Rightarrow>
                \<lparr>pe_position = int i + 1, pe_user_id = uid, pe_nickname = nick,
                 pe_balance = py_round bal 2\<rparr>)
             [0 ..< nat (min top_n (int (length arr)))])"

record metrics =
  m_performance :: rat
  m_win_rate :: rat
  m_trades_this_period :: int
  m_wins :: int
  m_period_start_balance :: rat
  m_balance :: rat

definition compute_user_metrics :: "builtins \<Rightarrow> user_record \<Rightarrow> error + metrics" where
  "compute_user_metrics B user_record =
     (let balance = float_or_start B (dict_get_default user_record ''balance'' (JFloat START_BALANCE));
          start = float_or_start B
                    (dict_get_default user_record ''period_start_balance'' (JFloat START_BALANCE));
          performance = (if start = 0 then 0 else ((balance - start) / start) * 100)
      in case py_int B (py_or (dict_get_default user_record ''trades'' (JInt 0)) (JInt 0)) of
           Inl e \<Rightarrow> Inl e
         | Inr trades \<Rightarrow>
             (case py_int B (py_or (dict_get_default user_record ''wins'' (JInt 0)) (JInt 0)) of
                Inl e \<Rightarrow> Inl e
              | Inr wins \<Rightarrow>
                  (let win_rate = (if trades \<le> 0 then 0
                                   else (of_int wins / of_int trades) * 100)
                   in Inr \<lparr>m_performance = py_round performance 2,
                           m_win_rate = py_round win_rate 2,
                           m_trades_this_period = trades,
                           m_wins = wins,
                           m_period_start_balance = py_round start 2,
                           m_balance = py_round balance 2\<rparr>)))"

section \<open>Requests and responses\<close>

record UserUpdate =
  nickname :: "string option"
  balance :: "rat option"
  trades :: "int option"
  wins :: "int option"
  period_start_balance :: "rat option"

record TradeRecord =
  result :: string
  amount :: "rat option"

record leaderboard_row =
  lb_user_id :: string
  lb_nickname :: json
  lb_balance :: rat
  lb_performance :: rat
  lb_win_rate :: rat
  lb_trades_this_period :: int

record leaderboard_response =
  leaderboard :: "leaderboard_row list"
  timestamp :: string

record user_view =
  v_user_id :: string
  v_nickname :: json
  v_balance :: rat
  v_performance :: rat
  v_win_rate :: rat
  v_trades_this_period :: int
  v_wins :: int
  v_period_start_balance :: rat
  v_last_update :: json

datatype close_response =
    AlreadyClosed string
  | Closed string "podium_entry list"

datatype latest_response =
    NoWinners
  | Latest string winners_entry "winners_entry dict"

section \<open>Read operations\<close>

text \<open>The loop of \<^verbatim>\<open>get_leaderboard\<close>; the first record whose metrics raise ends it.\<close>

fun leaderboard_rows :: "builtins \<Rightarrow> user_record dict \<Rightarrow> error + leaderboard_row list" where
  "leaderboard_rows B [] = Inr []"
| "leaderboard_rows B ((uid, u) # us) =
     (case compute_user_metrics B u of
        Inl e \<Rightarrow> Inl e
      | Inr m \<Rightarrow>
          (case leaderboard_rows B us of
             Inl e \<Rightarrow> Inl e
           | Inr arr \<Rightarrow>
               Inr (\<lparr>lb_user_id = uid,
                      lb_nickname = dict_get_default u ''nickname'' (JStr ''''),
                      lb_balance = m_balance m,
                      lb_performance = m_performance m,
                      lb_win_rate = m_win_rate m,
                      lb_trades_this_period = m_trades_this_period m\<rparr> # arr)))"

definition get_leaderboard ::
  "builtins \<Rightarrow> datetime \<Rightarrow> int \<Rightarrow> store \<Rightarrow> (error + leaderboard_response) \<times> store" where
  "get_leaderboard B now limit s =
     (let (db, s0) = read_db s
      in case leaderboard_rows B (users db) of
           Inl e \<Rightarrow> (Inl e, s0)
         | Inr arr \<Rightarrow>
             (Inr \<lparr>leaderboard = take (nat (max 0 (min limit 1000))) (py_sort_desc lb_balance arr),
                    timestamp = now_iso now\<rparr>, s0))"

text \<open>The merged view of a record and its metrics, built alike by three handlers.\<close>

definition merged_view :: "string \<Rightarrow> user_record \<Rightarrow> metrics \<Rightarrow> user_view" where
  "merged_view user_id u m =
     \<lparr>v_user_id = user_id,
      v_nickname = dict_get_default u ''nickname'' (JStr ''''),
      v_balance = m_balance m,
      v_performance = m_performance m,
      v_win_rate = m_win_rate m,
      v_trades_this_period = m_trades_this_period m,
      v_wins = m_wins m,
      v_period_start_balance = m_period_start_balance m,
      v_last_update = dict_get_default u ''last_update'' JNull\<rparr>"

definition default_view :: "string \<Rightarrow> user_view" where
  "default_view user_id =
     \<lparr>v_user_id = user_id,
      v_nickname = JStr '''',
      v_balance = py_round START_BALANCE 2,
      v_performance = 0,
      v_win_rate = 0,
      v_trades_this_period = 0,
      v_wins = 0,
      v_period_start_balance = py_round START_BALANCE 2,
      v_last_update = JNull\<rparr>"

text \<open>\<^verbatim>\<open>if user:\<close> is false for a missing user and for an empty record.\<close>

definition get_user :: "builtins \<Rightarrow> string \<Rightarrow> store \<Rightarrow> (error + user_view) \<times> store" where
  "get_user B user_id s =
     (let (db, s0) = read_db s
      in case dict_get (users db) user_id of
           None \<Rightarrow> (Inr (default_view user_id), s0)
         | Some u \<Rightarrow>
             if u \<noteq> [] then
               (case compute_user_metrics B u of
                  Inl e \<Rightarrow> (Inl e, s0)
                | Inr m \<Rightarrow> (Inr (merged_view user_id u m), s0))
             else (Inr (default_view user_id), s0))"

definition get_winners :: "string \<Rightarrow> store \<Rightarrow> (error + string \<times> winners_entry) \<times> store" where
  "get_winners month s =
     (let (db, s0) = read_db s
      in case dict_get (monthly_winners db) month of
           None \<Rightarrow> (Inl (HTTPException 404), s0)
         | Some winners \<Rightarrow> (Inr (month, winners), s0))"

definition get_latest_winners :: "store \<Rightarrow> (error + latest_response) \<times> store" where
  "get_latest_winners s =
     (let (db, s0) = read_db s; mw = monthly_winners db
      in if mw = [] then (Inr NoWinners, s0)
         else (let last_month = last (sort (map fst mw))
               in case dict_get mw last_month of
                    None \<Rightarrow> (Inl KeyError, s0)
                  | Some w \<Rightarrow> (Inr (Latest last_month w mw), s0)))"

section \<open>Write operations\<close>

definition new_user :: user_record where
  "new_user =
     [(''nickname'', JStr ''''),
      (''balance'', JFloat START_BALANCE),
      (''last_update'', JNull),
      (''trades'', JInt 0),
      (''wins'', JInt 0),
      (''period_start_balance'', JFloat START_BALANCE)]"

text \<open>The four \<^verbatim>\<open>u.setdefault\<close> calls both write handlers make, in the order of each.\<close>

definition ensure_fields :: "user_record \<Rightarrow> user_record" where
  "ensure_fields u =
     setdefault
       (setdefault
          (setdefault (setdefault u ''trades'' (JInt 0)) ''wins'' (JInt 0))
          ''period_start_balance'' (JFloat START_BALANCE))
       ''balance'' (JFloat START_BALANCE)"

text \<open>
  The rollover block at the head of \<^verbatim>\<open>post_user\<close>: the previous month is closed when
  the marker differs from the current month, it has no entry yet and the podium is not
  empty; the marker is set in any case.
\<close>

definition rollover :: "builtins \<Rightarrow> datetime \<Rightarrow> ledger \<Rightarrow> ledger" where
  "rollover B now db =
     (let current_month = get_month_key now
      in if last_month_closed db \<noteq> Some current_month then
           (let prev_month = prev_month_key now;
                db1 = (if \<not> dict_contains (monthly_winners db) prev_month then
                         (let podium = compute_podium_snapshot B (users db) 3
                          in if podium \<noteq> [] then
                               db\<lparr>monthly_winners :=
                                    dict_set (monthly_winners db) prev_month
                                      \<lparr>podium = podium, closed_at = now_iso now\<rparr>\<rparr>
                             else db)
                       else db)
            in db1\<lparr>last_month_closed := Some current_month\<rparr>)
         else db)"

text \<open>
  The field updates of \<^verbatim>\<open>post_user\<close>.  The request model has already typed the
  fields, so none of the conversions can fail.
\<close>

definition apply_update :: "UserUpdate \<Rightarrow> user_record \<Rightarrow> user_record" where
  "apply_update upd u =
     (let u1 = (case nickname upd of None \<Rightarrow> u
                | Some n \<Rightarrow> dict_set u ''nickname'' (JStr (take 40 n)));
          u2 = (case balance upd of None \<Rightarrow> u1
                | Some b \<Rightarrow> dict_set u1 ''balance'' (JFloat (py_round b 2)));
          u3 = (case trades upd of None \<Rightarrow> u2
                | Some t \<Rightarrow> dict_set u2 ''trades'' (JInt t));
          u4 = (case wins upd of None \<Rightarrow> u3
                | Some w \<Rightarrow> dict_set u3 ''wins'' (JInt w));
          u5 = (case period_start_balance upd of None \<Rightarrow> u4
                | Some p \<Rightarrow> dict_set u4 ''period_start_balance'' (JFloat (py_round p 2)))
      in ensure_fields u5)"

definition post_user ::
  "builtins \<Rightarrow> datetime \<Rightarrow> string \<Rightarrow> UserUpdate \<Rightarrow> store \<Rightarrow> (error + user_view) \<times> store" where
  "post_user B now user_id upd s =
     (let (db, s0) = read_db s;
          db1 = rollover B now db;
          u0 = dict_get_default (users db1) user_id new_user;
          u = dict_set (apply_update upd u0) ''last_update'' (JStr (now_iso now));
          db2 = db1\<lparr>users := dict_set (users db1) user_id u\<rparr>;
          s1 = write_db db2
      in case compute_user_metrics B u of
           Inl e \<Rightarrow> (Inl e, s1)
         | Inr m \<Rightarrow> (Inr (merged_view user_id u m), s1))"

text \<open>
  The trade itself: the counters, then the balance when an amount is given.  The stored
  counters and balance are converted without a handler, so a conversion that raises ends
  the request.
\<close>

definition apply_trade ::
  "builtins \<Rightarrow> string \<Rightarrow> rat option \<Rightarrow> user_record \<Rightarrow> error + user_record" where
  "apply_trade B res amt_opt u =
     (case py_int B (dict_get_default u ''trades'' (JInt 0)) of
        Inl e \<Rightarrow> Inl e
      | Inr t \<Rightarrow>
          (let u1 = dict_set u ''trades'' (JInt (t + 1))
           in case (if res = ''win'' then
                      (case py_int B (dict_get_default u1 ''wins'' (JInt 0)) of
                         Inl e \<Rightarrow> Inl e
                       | Inr w \<Rightarrow> Inr (dict_set u1 ''wins'' (JInt (w + 1))))
                    else Inr u1) of
                Inl e \<Rightarrow> Inl e
              | Inr u2 \<Rightarrow>
                  (case amt_opt of
                     None \<Rightarrow> Inr u2
                   | Some amt \<Rightarrow>
                       (case py_float B (dict_get_default u2 ''balance'' (JFloat START_BALANCE)) of
                          Inl e \<Rightarrow> Inl e
                        | Inr b \<Rightarrow>
                            Inr (dict_set u2 ''balance''
                                   (JFloat (py_round (if res = ''win'' then b + amt else b - amt) 2)))))))"

definition record_trade ::
  "builtins \<Rightarrow> datetime \<Rightarrow> string \<Rightarrow> TradeRecord \<Rightarrow> store \<Rightarrow> (error + user_view) \<times> store" where
  "record_trade B now user_id tr s =
     (let (db, s0) = read_db s;
          u0 = ensure_fields (dict_get_default (users db) user_id new_user);
          res = lower (result tr)
      in if res \<noteq> ''win'' \<and> res \<noteq> ''lose'' then (Inl (HTTPException 400), s0)
         else
           (case apply_trade B res (amount tr) u0 of
              Inl e \<Rightarrow> (Inl e, s0)
            | Inr u1 \<Rightarrow>
                (let u = dict_set u1 ''last_update'' (JStr (now_iso now));
                     db1 = db\<lparr>users := dict_set (users db) user_id u\<rparr>;
                     s1 = write_db db1
                 in case compute_user_metrics B u of
                      Inl e \<Rightarrow> (Inl e, s1)
                    | Inr m \<Rightarrow> (Inr (merged_view user_id u m), s1))))"

definition post_close_month :: "builtins \<Rightarrow> datetime \<Rightarrow> store \<Rightarrow> close_response \<times> store" where
  "post_close_month B now s =
     (let (db, s0) = read_db s;
          prev_month = prev_month_key now
      in if dict_contains (monthly_winners db) prev_month then (AlreadyClosed prev_month, s0)
         else
           (let podium = compute_podium_snapshot B (users db) 3;
                db1 = db\<lparr>monthly_winners :=
                          dict_set (monthly_winners db) prev_month
                            \<lparr>podium = podium, closed_at = now_iso now\<rparr>\<rparr>;
                db2 = db1\<lparr>last_month_closed := Some (get_month_key now)\<rparr>
            in (Closed prev_month podium, write_db db2)))"

section \<open>Histories of requests\<close>

datatype request =
    PostUser string UserUpdate
  | RecordTrade string TradeRecord
  | CloseMonth
  | GetLeaderboard int
  | GetUser string
  | GetWinners string
  | GetLatestWinners

text \<open>The file a request leaves behind.\<close>

fun serve :: "builtins \<Rightarrow> datetime \<Rightarrow> request \<Rightarrow> store \<Rightarrow> store" where
  "serve B now (PostUser user_id upd) s = snd (post_user B now user_id upd s)"
| "serve B now (RecordTrade user_id tr) s = snd (record_trade B now user_id tr s)"
| "serve B now CloseMonth s = snd (post_close_month B now s)"
| "serve B now (GetLeaderboard limit) s = snd (get_leaderboard B now limit s)"
| "serve B now (GetUser user_id) s = snd (get_user B user_id s)"
| "serve B now (GetWinners month) s = snd (get_winners month s)"
| "serve B now GetLatestWinners s = snd (get_latest_winners s)"


section \<open>Notions used to state the properties\<close>

text \<open>A field of the user update is absent when the request leaves it out.\<close>

definition absent_field :: "UserUpdate \<Rightarrow> string \<Rightarrow> bool" where
  "absent_field upd f =
     ((f = ''nickname'' \<and> nickname upd = None) \<or>
      (f = ''balance'' \<and> balance upd = None) \<or>
      (f = ''trades'' \<and> trades upd = None) \<or>
      (f = ''wins'' \<and> wins upd = None) \<or>
      (f = ''period_start_balance'' \<and> period_start_balance upd = None))"



section \<open>A concrete ledger\<close>

text \<open>
  The examples hold stored numbers only, so no string is ever parsed; they run with
  parsers that reject every string.
\<close>

definition reject_all :: builtins where
  "reject_all = \<lparr>str_to_float = (\<lambda>s. None), str_to_int = (\<lambda>s. None)\<rparr>"

definition jan_2024 :: datetime where
  "jan_2024 = \<lparr>dt_year = 2024, dt_month = 1, dt_isoformat = ''2024-01-15T10:00:00''\<rparr>"

definition alice :: user_record where
  "alice =
     [(''nickname'', JStr ''Al''), (''balance'', JFloat 5200),
      (''last_update'', JStr ''2024-01-02T09:00:00Z''), (''trades'', JInt 4),
      (''wins'', JInt 3), (''period_start_balance'', JFloat 5000)]"

definition bob :: user_record where
  "bob =
     [(''nickname'', JStr ''Bob''), (''balance'', JFloat 4800),
      (''last_update'', JStr ''2024-01-03T09:00:00Z''), (''trades'', JInt 2),
      (''wins'', JInt 0), (''period_start_balance'', JFloat 5000)]"

definition carol :: user_record where
  "carol =
     [(''nickname'', JStr ''''), (''balance'', JFloat 5000),
      (''last_update'', JNull), (''trades'', JInt 0),
      (''wins'', JInt 0), (''period_start_balance'', JFloat 5000)]"

definition december :: winners_entry where
  "december =
     \<lparr>podium = [\<lparr>pe_position = 1, pe_user_id = ''alice'', pe_nickname = JStr ''Al'',
                  pe_balance = 5100\<rparr>],
      closed_at = ''2024-01-01T00:00:05Z''\<rparr>"

definition example_db :: ledger where
  "example_db =
     \<lparr>users = [(''alice'', alice), (''bob'', bob), (''carol'', carol)],
      monthly_winners = [(''2023-12'', december)],
      last_month_closed = Some ''2024-01''\<rparr>"





section \<open>Dictionaries and the file\<close>

lemma dict_get_dict_set:
  "dict_get (dict_set d k v) k' = (if k' = k then Some v else dict_get d k')"
  by (simp add: dict_get_def dict_set_def update_conv')

lemma dict_contains_iff: "dict_contains d k = (dict_get d k \<noteq> None)"
  by (simp add: dict_contains_def dict_get_def)

lemma dict_get_setdefault:
  "dict_get (setdefault d k v) k' =
     (if k' = k then Some (case dict_get d k of None \<Rightarrow> v | Some x \<Rightarrow> x) else dict_get d k')"
  by (auto simp: setdefault_def dict_contains_iff dict_get_dict_set)

lemma dict_get_default_eq:
  "dict_get_default d k v = (case dict_get d k of None \<Rightarrow> v | Some x \<Rightarrow> x)"
  by (simp add: dict_get_default_def dict_get_def)

lemma read_db_Some: "read_db (Some db) = (db, Some db)"
  by (simp add: read_db_def)

lemma read_db_None: "read_db None = (default_db, Some default_db)"
  by (simp add: read_db_def)

lemma snd_read_db: "snd (read_db s) = Some (fst (read_db s))"
  by (simp add: read_db_def split: option.splits)

section \<open>What each handler leaves in the file\<close>

lemma snd_get_leaderboard: "snd (get_leaderboard B now limit s) = snd (read_db s)"
  by (simp add: get_leaderboard_def Let_def case_prod_beta split: sum.splits)

lemma snd_get_user: "snd (get_user B user_id s) = snd (read_db s)"
  by (simp add: get_user_def Let_def case_prod_beta split: sum.splits option.splits)

lemma snd_get_winners: "snd (get_winners month s) = snd (read_db s)"
  by (simp add: get_winners_def Let_def case_prod_beta split: option.splits)

lemma snd_get_latest_winners: "snd (get_latest_winners s) = snd (read_db s)"
  by (simp add: get_latest_winners_def Let_def case_prod_beta split: option.splits)

lemmas snd_reads = snd_get_leaderboard snd_get_user snd_get_winners snd_get_latest_winners

lemma users_rollover: "users (rollover B now db) = users db"
  by (simp add: rollover_def Let_def)

lemma winners_rollover:
  "dict_get (monthly_winners db) m = Some e \<Longrightarrow>
   dict_get (monthly_winners (rollover B now db)) m = Some e"
  by (auto simp: rollover_def Let_def dict_get_dict_set dict_contains_iff)

lemma snd_post_user:
  "snd (post_user B now user_id upd s) =
     Some ((rollover B now (fst (read_db s)))
        \<lparr>users := dict_set (users (fst (read_db s))) user_id
            (dict_set (apply_update upd (dict_get_default (users (fst (read_db s))) user_id new_user))
               ''last_update'' (JStr (now_iso now)))\<rparr>)"
  by (simp add: post_user_def Let_def case_prod_beta write_db_def users_rollover split: sum.splits)

lemma snd_record_trade:
  "snd (record_trade B now user_id tr s) =
     (if lower (result tr) \<noteq> ''win'' \<and> lower (result tr) \<noteq> ''lose'' then Some (fst (read_db s))
      else case apply_trade B (lower (result tr)) (amount tr)
                  (ensure_fields (dict_get_default (users (fst (read_db s))) user_id new_user)) of
             Inl e \<Rightarrow> Some (fst (read_db s))
           | Inr u1 \<Rightarrow>
               Some ((fst (read_db s))\<lparr>users := dict_set (users (fst (read_db s))) user_id
                       (dict_set u1 ''last_update'' (JStr (now_iso now)))\<rparr>))"
  by (simp add: record_trade_def Let_def case_prod_beta write_db_def snd_read_db split: sum.splits)

lemma snd_post_close_month:
  "snd (post_close_month B now s) =
     (if dict_contains (monthly_winners (fst (read_db s))) (prev_month_key now)
      then Some (fst (read_db s))
      else Some ((fst (read_db s))
        \<lparr>monthly_winners := dict_set (monthly_winners (fst (read_db s))) (prev_month_key now)
            \<lparr>podium = compute_podium_snapshot B (users (fst (read_db s))) 3,
             closed_at = now_iso now\<rparr>,
         last_month_closed := Some (get_month_key now)\<rparr>))"
  by (simp add: post_close_month_def Let_def case_prod_beta write_db_def snd_read_db)

lemma serve_Some: "\<exists>db'. serve B now req s = Some db'"
proof (cases req)
  case (RecordTrade user_id tr)
  then show ?thesis by (simp add: snd_record_trade split: sum.splits)
qed (simp_all add: snd_post_user snd_post_close_month snd_reads snd_read_db)

lemma winners_serve:
  assumes "dict_get (monthly_winners (fst (read_db s))) m = Some e"
    and "serve B now req s = Some db'"
  shows "dict_get (monthly_winners db') m = Some e"
proof (cases req)
  case (PostUser user_id upd)
  with assms show ?thesis by (auto simp: snd_post_user winners_rollover)
next
  case (RecordTrade user_id tr)
  with assms show ?thesis by (auto simp: snd_record_trade split: if_splits sum.splits)
next
  case CloseMonth
  with assms show ?thesis
    by (auto simp: snd_post_close_month dict_get_dict_set dict_contains_iff split: if_splits)
qed (use assms in \<open>auto simp: snd_reads snd_read_db\<close>)

lemma jan_2024_keys:
  "get_month_key jan_2024 = ''2024-01''" "prev_month_key jan_2024 = ''2023-12''"
  "now_iso jan_2024 = ''2024-01-15T10:00:00Z''"
  by (simp_all add: get_month_key_def prev_month_key_def now_iso_def jan_2024_def
      strftime_Y_m_def digit_def)

section \<open>Read operations change nothing\<close>

text \<open>
  Claim C10.  The four read operations (leaderboard, user, winners of a month, latest
  winners) leave the file as it is: for every document \<open>db\<close> the file holds \<open>db\<close> before
  and after, so the users, the monthly winners and \<open>last_month_closed\<close> are the same and
  a user that was never written gets no record.  When there is no file yet, reading
  creates it with the empty document, which is what every read sees in that case.
\<close>

theorem reads_leave_document_unchanged:
  "snd (get_leaderboard B now limit (Some db)) = Some db \<and>
   snd (get_user B user_id (Some db)) = Some db \<and>
   snd (get_winners month (Some db)) = Some db \<and>
   snd (get_latest_winners (Some db)) = Some db \<and>
   snd (get_leaderboard B now limit None) = Some default_db \<and>
   snd (get_user B user_id None) = Some default_db \<and>
   snd (get_winners month None) = Some default_db \<and>
   snd (get_latest_winners None) = Some default_db"
  by (simp add: snd_reads read_db_Some read_db_None)

section \<open>Closing a month\<close>

lemma compute_podium_snapshot_Nil: "compute_podium_snapshot B [] n = []"
  by (simp add: compute_podium_snapshot_def podium_rows_def py_sort_desc_def)

text \<open>
  Claim C1.  A month that has an entry keeps it.  When the previous month \<open>m\<close> already
  has the entry \<open>e\<close>, the manual trigger answers \<^verbatim>\<open>already_closed\<close> and leaves the whole
  file as it was; and whatever request is served, the entry of \<open>m\<close> afterwards is still
  \<open>e\<close>, podium and \<open>closed_at\<close> included.
\<close>

theorem close_month_idempotent:
  assumes "dict_get (monthly_winners db) m = Some e"
  shows "(m = prev_month_key now \<longrightarrow>
            post_close_month B now (Some db) = (AlreadyClosed m, Some db)) \<and>
         (\<forall>req. \<exists>db'. serve B now req (Some db) = Some db' \<and>
            dict_get (monthly_winners db') m = Some e)"
proof (intro conjI impI allI)
  assume "m = prev_month_key now"
  with assms show "post_close_month B now (Some db) = (AlreadyClosed m, Some db)"
    by (simp add: post_close_month_def read_db_Some dict_contains_iff)
next
  fix req
  obtain db' where s: "serve B now req (Some db) = Some db'"
    using serve_Some by blast
  moreover from assms have "dict_get (monthly_winners (fst (read_db (Some db)))) m = Some e"
    by (simp add: read_db_Some)
  ultimately show "\<exists>db'. serve B now req (Some db) = Some db' \<and>
      dict_get (monthly_winners db') m = Some e"
    using winners_serve by blast
qed

theorem close_month_idempotent_witness:
  "dict_get (monthly_winners example_db) ''2023-12'' = Some december \<and>
   post_close_month reject_all jan_2024 (Some example_db) =
     (AlreadyClosed ''2023-12'', Some example_db) \<and>
   (\<forall>req. \<exists>db'. serve reject_all jan_2024 req (Some example_db) = Some db' \<and>
      dict_get (monthly_winners db') ''2023-12'' = Some december)"
proof -
  have h: "dict_get (monthly_winners example_db) ''2023-12'' = Some december"
    by (simp add: example_db_def dict_get_def)
  from close_month_idempotent [OF h, of jan_2024 reject_all] h show ?thesis
    by (simp add: jan_2024_keys)
qed

text \<open>
  Claim C2.  With no user at all the manual trigger still writes an entry: on the empty
  document (and when there is no file) it answers \<^verbatim>\<open>closed\<close> and stores an entry with an
  empty podium for the previous month.  The rollover of the user update writes none.
\<close>

theorem close_month_records_empty_podium:
  "post_close_month B now None =
     (Closed (prev_month_key now) [],
      Some \<lparr>users = [],
            monthly_winners =
              [(prev_month_key now, \<lparr>podium = [], closed_at = now_iso now\<rparr>)],
            last_month_closed = Some (get_month_key now)\<rparr>) \<and>
   post_close_month B now (Some default_db) = post_close_month B now None \<and>
   monthly_winners (rollover B now default_db) = []"
  by (simp add: post_close_month_def read_db_def default_db_def dict_contains_def dict_set_def
      compute_podium_snapshot_Nil rollover_def Let_def write_db_def)

section \<open>Metrics\<close>

text \<open>
  Claim C6.  \<^verbatim>\<open>compute_user_metrics\<close> raises on a record whose \<^verbatim>\<open>trades\<close> or \<^verbatim>\<open>wins\<close>
  cannot be converted by \<^verbatim>\<open>int\<close>: a list or an object gives \<^verbatim>\<open>TypeError\<close>, a string the
  parser rejects gives \<^verbatim>\<open>ValueError\<close>.  Only the two balances have a fallback.
\<close>

theorem compute_user_metrics_raises:
  "compute_user_metrics B [(''trades'', JList [JInt 1])] = Inl TypeError \<and>
   compute_user_metrics B [(''wins'', JObj [(''n'', JInt 1)])] = Inl TypeError \<and>
   compute_user_metrics reject_all [(''trades'', JStr ''abc'')] = Inl ValueError"
  by (simp add: compute_user_metrics_def dict_get_default_def py_or_def Let_def reject_all_def)

lemma py_round_0: "py_round 0 n = 0"
  by (simp add: py_round_def round_half_even_def)




section \<open>User update\<close>

lemma dict_get_ensure_fields:
  "dict_get (ensure_fields u) k =
     (if k = ''balance'' then Some (dict_get_default u ''balance'' (JFloat START_BALANCE))
      else if k = ''period_start_balance'' then
        Some (dict_get_default u ''period_start_balance'' (JFloat START_BALANCE))
      else if k = ''wins'' then Some (dict_get_default u ''wins'' (JInt 0))
      else if k = ''trades'' then Some (dict_get_default u ''trades'' (JInt 0))
      else dict_get u k)"
  by (simp add: ensure_fields_def dict_get_setdefault dict_get_default_eq)

text \<open>
  What a user update leaves in each field: the given value, else the stored one, else
  (except for the nickname) the default the handler fills in.
\<close>

lemma dict_get_apply_update:
  "dict_get (apply_update upd u) ''nickname'' =
     (case nickname upd of None \<Rightarrow> dict_get u ''nickname'' | Some n \<Rightarrow> Some (JStr (take 40 n)))"
  "dict_get (apply_update upd u) ''balance'' =
     Some (case balance upd of None \<Rightarrow> dict_get_default u ''balance'' (JFloat START_BALANCE)
           | Some b \<Rightarrow> JFloat (py_round b 2))"
  "dict_get (apply_update upd u) ''trades'' =
     Some (case trades upd of None \<Rightarrow> dict_get_default u ''trades'' (JInt 0) | Some t \<Rightarrow> JInt t)"
  "dict_get (apply_update upd u) ''wins'' =
     Some (case wins upd of None \<Rightarrow> dict_get_default u ''wins'' (JInt 0) | Some w \<Rightarrow> JInt w)"
  "dict_get (apply_update upd u) ''period_start_balance'' =
     Some (case period_start_balance upd of
             None \<Rightarrow> dict_get_default u ''period_start_balance'' (JFloat START_BALANCE)
           | Some p \<Rightarrow> JFloat (py_round p 2))"
  by (simp_all add: apply_update_def Let_def dict_get_ensure_fields dict_get_default_eq
      dict_get_dict_set split: option.splits)

lemma apply_update_keeps_absent:
  assumes "absent_field upd f" and "dict_get u f = Some v"
  shows "dict_get (apply_update upd u) f = Some v"
  using assms by (auto simp: absent_field_def dict_get_apply_update dict_get_default_eq)

text \<open>
  Claim C4.  The user update is partial.  For a user that has the record \<open>u\<close>, the update
  is written to the file, and every field among nickname, balance, trades, wins and
  period_start_balance that the request leaves out keeps the value \<open>v\<close> stored in \<open>u\<close>.
  Posting only a nickname is the case where the other four fields are left out.
\<close>

theorem post_user_partial_update:
  assumes "dict_get (users db) user_id = Some u"
  shows "\<exists>db' u'. snd (post_user B now user_id upd (Some db)) = Some db' \<and>
     dict_get (users db') user_id = Some u' \<and>
     (\<forall>f v. absent_field upd f \<longrightarrow> dict_get u f = Some v \<longrightarrow> dict_get u' f = Some v)"
proof -
  from assms have u0: "dict_get_default (users db) user_id new_user = u"
    by (simp add: dict_get_default_eq)
  have "f \<noteq> ''last_update''" if "absent_field upd f" for f
    using that by (auto simp: absent_field_def)
  then show ?thesis
    by (simp add: snd_post_user read_db_Some u0 dict_get_dict_set apply_update_keeps_absent)
qed

theorem post_user_partial_update_witness:
  "\<exists>db' u'.
     snd (post_user reject_all jan_2024 ''alice''
            \<lparr>nickname = Some ''Bob'', balance = None, trades = None, wins = None,
             period_start_balance = None\<rparr> (Some example_db)) = Some db' \<and>
     dict_get (users db') ''alice'' = Some u' \<and>
     dict_get u' ''balance'' = Some (JFloat 5200) \<and>
     dict_get u' ''trades'' = Some (JInt 4) \<and>
     dict_get u' ''wins'' = Some (JInt 3) \<and>
     dict_get u' ''period_start_balance'' = Some (JFloat 5000)"
proof -
  let ?upd = "\<lparr>nickname = Some ''Bob'', balance = None, trades = None, wins = None,
               period_start_balance = None\<rparr>"
  have h: "dict_get (users example_db) ''alice'' = Some alice"
    by (simp add: example_db_def dict_get_def)
  from post_user_partial_update [OF h, of reject_all jan_2024 ?upd]
  obtain db' u' where s: "snd (post_user reject_all jan_2024 ''alice'' ?upd (Some example_db)) = Some db'"
    and u: "dict_get (users db') ''alice'' = Some u'"
    and keep: "\<And>f v. absent_field ?upd f \<Longrightarrow> dict_get alice f = Some v \<Longrightarrow> dict_get u' f = Some v"
    by blast
  have "dict_get u' ''balance'' = Some (JFloat 5200)"
    by (rule keep) (simp_all add: absent_field_def alice_def dict_get_def)
  moreover have "dict_get u' ''trades'' = Some (JInt 4)"
    by (rule keep) (simp_all add: absent_field_def alice_def dict_get_def)
  moreover have "dict_get u' ''wins'' = Some (JInt 3)"
    by (rule keep) (simp_all add: absent_field_def alice_def dict_get_def)
  moreover have "dict_get u' ''period_start_balance'' = Some (JFloat 5000)"
    by (rule keep) (simp_all add: absent_field_def alice_def dict_get_def)
  ultimately show ?thesis using s u by blast
qed

section \<open>Trade record\<close>













section \<open>Counters along histories\<close>
















section \<open>Ranking\<close>





















section \<open>Leaderboard\<close>





section \<open>Further properties of the handlers\<close>

text \<open>
  The metrics are returned exactly when \<^verbatim>\<open>int\<close> converts both counters (after
  \<^verbatim>\<open>or 0\<close>); the balances never make them fail.
\<close>

theorem compute_user_metrics_returns_iff:
  "(\<exists>m. compute_user_metrics B r = Inr m) \<longleftrightarrow>
     (\<exists>t w. py_int B (py_or (dict_get_default r ''trades'' (JInt 0)) (JInt 0)) = Inr t \<and>
            py_int B (py_or (dict_get_default r ''wins'' (JInt 0)) (JInt 0)) = Inr w)"
  by (auto simp: compute_user_metrics_def Let_def split: sum.splits)

text \<open>The win rate is 0 whenever the number of trades is 0 or less.\<close>

theorem win_rate_zero_without_trades:
  assumes "compute_user_metrics B r = Inr m" and "m_trades_this_period m \<le> 0"
  shows "m_win_rate m = 0"
  using assms by (auto simp: compute_user_metrics_def Let_def py_round_0 split: sum.splits)

theorem win_rate_zero_without_trades_witness:
  "compute_user_metrics reject_all carol =
     Inr \<lparr>m_performance = 0, m_win_rate = 0, m_trades_this_period = 0, m_wins = 0,
          m_period_start_balance = 5000, m_balance = 5000\<rparr> \<and>
   m_win_rate \<lparr>m_performance = 0, m_win_rate = 0, m_trades_this_period = 0, m_wins = 0,
          m_period_start_balance = 5000, m_balance = 5000\<rparr> = 0"
proof -
  have c: "compute_user_metrics reject_all carol =
     Inr \<lparr>m_performance = 0, m_win_rate = 0, m_trades_this_period = 0, m_wins = 0,
          m_period_start_balance = 5000, m_balance = 5000\<rparr>"
    by code_simp
  from win_rate_zero_without_trades [OF c] c show ?thesis by simp
qed

text \<open>
  With no user the rollover of the user update writes no winners entry and still sets
  \<open>last_month_closed\<close> to the current month.
\<close>

theorem rollover_skips_empty_podium:
  assumes "users db = []"
  shows "monthly_winners (rollover B now db) = monthly_winners db \<and>
         last_month_closed (rollover B now db) = Some (get_month_key now)"
  using assms by (simp add: rollover_def Let_def compute_podium_snapshot_Nil)

theorem rollover_skips_empty_podium_witness:
  "users default_db = [] \<and>
   monthly_winners (rollover reject_all jan_2024 default_db) = [] \<and>
   last_month_closed (rollover reject_all jan_2024 default_db) = Some ''2024-01''"
proof -
  have u: "users default_db = []" by (simp add: default_db_def)
  from rollover_skips_empty_podium [OF u, of reject_all jan_2024] u show ?thesis
    by (simp add: default_db_def jan_2024_keys)
qed

text \<open>
  The winners of a month are answered with the error 404, and nothing else, exactly when
  the month has no entry.
\<close>

theorem get_winners_not_found:
  "get_winners month s = (Inl (HTTPException 404), snd (read_db s)) \<longleftrightarrow>
     dict_get (monthly_winners (fst (read_db s))) month = None"
  by (simp add: get_winners_def Let_def case_prod_beta snd_read_db split: option.splits)


end
